theory Spec2Isabelle
  imports Main "HOL-Library.Word"
begin

section \<open>The TCP server of tcp\_server.c\<close>

text \<open>
  The program has three execution contexts that share a handful of global variables: the
  server task (\<open>tcp_server_task\<close>), the socket callbacks run by the networking stack
  (\<open>tcp_connection_handler\<close>, \<open>tcp_receive_msg_handler\<close>, \<open>tcp_disconnection_handler\<close>)
  and the button interrupt (\<open>isr_button_press\<close>). Each of them is embedded as a function on
  a record of the globals. What the secure-socket library, the GPIO driver and the RTOS
  answer is an argument of the function (the library is not part of the program), and every
  call the program makes to them is appended to a trace, so that a statement such as "no send
  happens" or "the socket is deleted" is a statement about that trace. A callback, an
  interrupt and a pass of the task's loop each run from start to end on the state they
  find: the model orders them but does not interleave their statements. The start-up part
  of \<open>tcp_server_task\<close> (Wi-Fi, socket creation, listen) lies before the loop and is
  represented by the state in which the loop is entered.
\<close>

subsection \<open>Macros\<close>

definition TCP_SERVER_MAX_PENDING_CONNECTIONS :: nat where
  "TCP_SERVER_MAX_PENDING_CONNECTIONS = 3"

definition MAX_TCP_RECV_BUFFER_SIZE :: nat where
  "MAX_TCP_RECV_BUFFER_SIZE = 20"

definition TCP_KEEP_ALIVE_IDLE_TIME_MS :: "32 word" where
  "TCP_KEEP_ALIVE_IDLE_TIME_MS = 10000"

definition TCP_KEEP_ALIVE_INTERVAL_MS :: "32 word" where
  "TCP_KEEP_ALIVE_INTERVAL_MS = 1000"

definition TCP_KEEP_ALIVE_RETRY_COUNT :: "32 word" where
  "TCP_KEEP_ALIVE_RETRY_COUNT = 2"

definition TCP_LED_CMD_LEN :: nat where
  "TCP_LED_CMD_LEN = 1"

text \<open>The commands are the character constants \<open>'1'\<close> and \<open>'0'\<close>, held in a \<open>uint32_t\<close>.\<close>

definition LED_ON_CMD :: "32 word" where
  "LED_ON_CMD = 0x31"

definition LED_OFF_CMD :: "32 word" where
  "LED_OFF_CMD = 0x30"

definition DEBOUNCE_DELAY_MS :: nat where
  "DEBOUNCE_DELAY_MS = 50"

text \<open>
  Modelled from the spec: the board support package's macros \<open>CYBSP_LED_STATE_ON\<close> and
  \<open>CYBSP_LED_STATE_OFF\<close> are not under src/. The flag \<open>led_state\<close> is a \<open>bool\<close> that the
  spec calls \<open>ledIsOn\<close>, reset to \<open>false\<close> when the LED is off.
\<close>

definition CYBSP_LED_STATE_ON :: bool where
  "CYBSP_LED_STATE_ON = True"

definition CYBSP_LED_STATE_OFF :: bool where
  "CYBSP_LED_STATE_OFF = False"

subsection \<open>Data\<close>

text \<open>
  A \<open>cy_rslt_t\<close> is a 32-bit code. The program compares it with two codes only, success
  and "socket closed"; every other code is carried along with its number.
\<close>

datatype cy_rslt_t =
    CY_RSLT_SUCCESS
  | CY_RSLT_MODULE_SECURE_SOCKETS_CLOSED
  | CY_RSLT_OTHER "32 word"

type_synonym cy_socket_t = nat

record cy_socket_sockaddr_t =
  ip_address :: "32 word"
  port :: "16 word"

datatype sockopt =
    CY_SOCKET_SO_TCP_KEEPALIVE_INTERVAL
  | CY_SOCKET_SO_TCP_KEEPALIVE_COUNT
  | CY_SOCKET_SO_TCP_KEEPALIVE_IDLE_TIME
  | CY_SOCKET_SO_TCP_KEEPALIVE_ENABLE

text \<open>One constructor for each \<open>printf\<close> of the modelled functions.\<close>

datatype message =
    Msg_led_on_sent
  | Msg_led_off_sent
  | Msg_send_failed cy_rslt_t
  | Msg_connection_accepted
  | Msg_peer_ip "32 word"
  | Msg_press_button
  | Msg_keepalive_interval_failed
  | Msg_keepalive_count_failed
  | Msg_keepalive_idle_time_failed
  | Msg_keepalive_enable_failed
  | Msg_accept_failed cy_rslt_t
  | Msg_separator
  | Msg_listening "16 word"
  | Msg_acknowledgement string
  | Msg_receive_failed cy_rslt_t
  | Msg_client_disconnected

text \<open>The calls the program makes to its libraries, with the arguments that matter.\<close>

datatype call =
    Cy_socket_accept cy_socket_t
  | Cy_socket_setsockopt cy_socket_t sockopt "32 word"
  | Cy_socket_recv cy_socket_t nat
  | Cy_socket_send cy_socket_t "32 word" nat
  | Cy_socket_disconnect cy_socket_t
  | Cy_socket_delete cy_socket_t
  | Cyhal_gpio_enable_event bool
  | VTaskDelay nat
  | Printf message

text \<open>
  The global variables of tcp\_server.c, followed by the three pieces of the environment
  that the functions act on: the notification slot of the server task, the enable bit of
  the button's falling-edge event, and the trace of library calls.
\<close>

record state =
  tcp_server_addr :: cy_socket_sockaddr_t
  peer_addr :: cy_socket_sockaddr_t
  server_handle :: cy_socket_t
  client_handle :: cy_socket_t
  peer_addr_len :: "32 word"
  led_state :: bool
  client_connected :: bool
  notification_pending :: bool
  notified_value :: "32 word"
  button_event_enabled :: bool
  trace :: "call list"

definition emit :: "call \<Rightarrow> state \<Rightarrow> state" where
  "emit c s = s\<lparr>trace := trace s @ [c]\<rparr>"

text \<open>
  What C leaves undefined is a value of its own: a store outside an array, and a string
  function that runs off the end of an array without meeting a terminator.
\<close>

datatype fault =
    Out_of_bounds_write nat nat
  | Unterminated_string

subsection \<open>C strings\<close>

abbreviation NUL :: char where
  "NUL \<equiv> CHR 0x00"

text \<open>\<open>buf[i] = c\<close> on an array of \<open>length buf\<close> characters.\<close>

definition store_char :: "string \<Rightarrow> nat \<Rightarrow> char \<Rightarrow> fault + string" where
  "store_char buf i c =
     (if i < length buf then Inr (buf[i := c])
      else Inl (Out_of_bounds_write i (length buf)))"

text \<open>
  \<open>strcmp\<close> walks both arrays until the characters differ or both are the terminator.
  The result is the difference of the two characters read as \<open>unsigned char\<close>.
\<close>

fun strcmp :: "string \<Rightarrow> string \<Rightarrow> int option" where
  "strcmp [] _ = None"
| "strcmp _ [] = None"
| "strcmp (a # as) (b # bs) =
     (if a \<noteq> b then Some (int (of_char a) - int (of_char b))
      else if a = NUL then Some 0
      else strcmp as bs)"

text \<open>The characters that \<open>%s\<close> prints: those before the first terminator.\<close>

definition c_string :: "string \<Rightarrow> string" where
  "c_string buf = takeWhile (\<lambda>c. c \<noteq> NUL) buf"

text \<open>The string literal \<open>"LED ON ACK"\<close>, an array of eleven characters.\<close>

definition LED_ON_ACK :: string where
  "LED_ON_ACK = ''LED ON ACK'' @ [NUL]"

subsection \<open>The receive callback\<close>

text \<open>
  \<open>cy_socket_recv\<close> is asked for at most \<open>len\<close> bytes: it copies that many of the
  incoming bytes to the front of the buffer and reports how many it copied.
\<close>

definition cy_socket_recv :: "string \<Rightarrow> nat \<Rightarrow> string \<Rightarrow> string \<times> nat" where
  "cy_socket_recv buffer len incoming =
     (let got = take len incoming
      in (got @ drop (length got) buffer, length got))"

record recv_outcome =
  recv_result :: cy_rslt_t
  recv_incoming :: string

definition tcp_receive_msg_handler ::
    "recv_outcome \<Rightarrow> cy_socket_t \<Rightarrow> state \<Rightarrow> fault + (cy_rslt_t \<times> state)" where
  "tcp_receive_msg_handler env socket_handle s0 =
     (let message_buffer = replicate MAX_TCP_RECV_BUFFER_SIZE NUL;
          (message_buffer, bytes_received) =
             cy_socket_recv message_buffer MAX_TCP_RECV_BUFFER_SIZE (recv_incoming env);
          result = recv_result env;
          s = emit (Cy_socket_recv socket_handle MAX_TCP_RECV_BUFFER_SIZE) s0;
          epilogue = (\<lambda>s. emit (Printf Msg_press_button) (emit (Printf Msg_separator) s))
      in if result = CY_RSLT_SUCCESS then
           (case store_char message_buffer bytes_received NUL of
              Inl f \<Rightarrow> Inl f
            | Inr message_buffer \<Rightarrow>
                (let s = emit (Printf (Msg_acknowledgement (c_string message_buffer))) s
                 in case strcmp message_buffer LED_ON_ACK of
                      None \<Rightarrow> Inl Unterminated_string
                    | Some d \<Rightarrow>
                        Inr (result,
                             epilogue (if d = 0 then s\<lparr>led_state := CYBSP_LED_STATE_ON\<rparr>
                                       else s\<lparr>led_state := CYBSP_LED_STATE_OFF\<rparr>))))
         else
           (let s = emit (Printf (Msg_receive_failed result)) s;
                s = (if result = CY_RSLT_MODULE_SECURE_SOCKETS_CLOSED
                     then emit (Cy_socket_delete socket_handle)
                            (emit (Cy_socket_disconnect socket_handle) s)
                     else s)
            in Inr (result, epilogue s)))"

subsection \<open>The disconnect callback\<close>

definition tcp_disconnection_handler ::
    "cy_rslt_t \<Rightarrow> cy_socket_t \<Rightarrow> state \<Rightarrow> cy_rslt_t \<times> state" where
  "tcp_disconnection_handler disconnect_result socket_handle s0 =
     (let s = emit (Cy_socket_disconnect socket_handle) s0;
          result = disconnect_result;
          s = emit (Cy_socket_delete socket_handle) s;
          s = s\<lparr>client_connected := False\<rparr>;
          s = emit (Printf Msg_client_disconnected) s;
          s = emit (Printf Msg_separator) s;
          s = emit (Printf (Msg_listening (port (tcp_server_addr s)))) s;
          s = s\<lparr>led_state := CYBSP_LED_STATE_OFF\<rparr>
      in (result, s))"

subsection \<open>The connect-request callback\<close>

text \<open>
  \<open>cy_socket_accept\<close> is given the addresses of \<open>peer_addr\<close>, \<open>peer_addr_len\<close> and
  \<open>client_handle\<close>. Its outcome is the result code together with the values these three
  globals hold when it returns; the four \<open>cy_socket_setsockopt\<close> calls answer with a result
  code each.
\<close>

record connection_env =
  accept_result :: cy_rslt_t
  accept_peer_addr :: cy_socket_sockaddr_t
  accept_peer_addr_len :: "32 word"
  accept_client_handle :: cy_socket_t
  keepalive_interval_result :: cy_rslt_t
  keepalive_count_result :: cy_rslt_t
  keepalive_idle_time_result :: cy_rslt_t
  keepalive_enable_result :: cy_rslt_t

definition tcp_connection_handler ::
    "connection_env \<Rightarrow> cy_socket_t \<Rightarrow> state \<Rightarrow> cy_rslt_t \<times> state" where
  "tcp_connection_handler env socket_handle s0 =
     (let keep_alive = (1 :: 32 word);
          keep_alive_interval = TCP_KEEP_ALIVE_INTERVAL_MS;
          keep_alive_count = TCP_KEEP_ALIVE_RETRY_COUNT;
          keep_alive_idle_time = TCP_KEEP_ALIVE_IDLE_TIME_MS;
          s = emit (Cy_socket_accept socket_handle) s0;
          s = s\<lparr>peer_addr := accept_peer_addr env,
                peer_addr_len := accept_peer_addr_len env,
                client_handle := accept_client_handle env\<rparr>;
          result = accept_result env
      in if result = CY_RSLT_SUCCESS then
           (let s = emit (Printf Msg_connection_accepted) s;
                s = emit (Printf (Msg_peer_ip (ip_address (peer_addr s)))) s;
                s = emit (Printf Msg_press_button) s;
                s = emit (Cy_socket_setsockopt (client_handle s)
                            CY_SOCKET_SO_TCP_KEEPALIVE_INTERVAL keep_alive_interval) s;
                result = keepalive_interval_result env
            in if result \<noteq> CY_RSLT_SUCCESS then
                 (result, emit (Printf Msg_keepalive_interval_failed) s)
               else
           (let s = emit (Cy_socket_setsockopt (client_handle s)
                            CY_SOCKET_SO_TCP_KEEPALIVE_COUNT keep_alive_count) s;
                result = keepalive_count_result env
            in if result \<noteq> CY_RSLT_SUCCESS then
                 (result, emit (Printf Msg_keepalive_count_failed) s)
               else
           (let s = emit (Cy_socket_setsockopt (client_handle s)
                            CY_SOCKET_SO_TCP_KEEPALIVE_IDLE_TIME keep_alive_idle_time) s;
                result = keepalive_idle_time_result env
            in if result \<noteq> CY_RSLT_SUCCESS then
                 (result, emit (Printf Msg_keepalive_idle_time_failed) s)
               else
           (let s = emit (Cy_socket_setsockopt (client_handle s)
                            CY_SOCKET_SO_TCP_KEEPALIVE_ENABLE keep_alive) s;
                result = keepalive_enable_result env
            in if result \<noteq> CY_RSLT_SUCCESS then
                 (result, emit (Printf Msg_keepalive_enable_failed) s)
               else
                 (result, s\<lparr>client_connected := True\<rparr>)))))
         else
           (let s = emit (Printf (Msg_accept_failed result)) s;
                s = emit (Printf Msg_separator) s;
                s = emit (Printf (Msg_listening (port (tcp_server_addr s)))) s
            in (result, s)))"

subsection \<open>The task notification\<close>

text \<open>
  Modelled from the spec: \<open>xTaskNotifyFromISR\<close> and \<open>xTaskNotifyWait\<close> belong to the RTOS
  and are not under src/. The spec describes the slot they share as single-valued with
  "set-without-overwrite" posting: a pending unread value is preserved and a new post is
  dropped. The post is the call with the action \<open>eSetValueWithoutOverwrite\<close>, the only
  action the program uses; it answers whether the value was stored. The wait is the call
  with no bits cleared and \<open>portMAX_DELAY\<close>: with nothing pending the task stays blocked,
  which is the value \<open>None\<close>.
\<close>

definition xTaskNotifyFromISR :: "32 word \<Rightarrow> state \<Rightarrow> bool \<times> state" where
  "xTaskNotifyFromISR ulValue s =
     (if notification_pending s then (False, s)
      else (True, s\<lparr>notified_value := ulValue, notification_pending := True\<rparr>))"

definition xTaskNotifyWait :: "state \<Rightarrow> (32 word \<times> state) option" where
  "xTaskNotifyWait s =
     (if notification_pending s
      then Some (notified_value s, s\<lparr>notification_pending := False\<rparr>)
      else None)"

subsection \<open>The button interrupt\<close>

text \<open>The value of the local \<open>led_state_cmd\<close> when the interrupt routine posts it.\<close>

definition isr_led_state_cmd :: "state \<Rightarrow> 32 word" where
  "isr_led_state_cmd s =
     (if led_state s = CYBSP_LED_STATE_ON then LED_OFF_CMD else LED_ON_CMD)"

text \<open>
  The request for a context switch (\<open>portYIELD_FROM_ISR\<close>) changes when the task runs, not
  what it does, and has no counterpart on the state.
\<close>

definition isr_button_press :: "state \<Rightarrow> state" where
  "isr_button_press s = snd (xTaskNotifyFromISR (isr_led_state_cmd s) s)"

subsection \<open>The server task\<close>

text \<open>
  One pass through the body of the \<open>while(true)\<close> loop of \<open>tcp_server_task\<close>. The level
  read from the button pin (low when pressed) and the answer of \<open>cy_socket_send\<close> come
  from the environment. The pass does not start (\<open>None\<close>) while no notification is pending.
\<close>

record task_env =
  gpio_read :: bool
  send_result :: cy_rslt_t

definition cyhal_gpio_enable_event :: "bool \<Rightarrow> state \<Rightarrow> state" where
  "cyhal_gpio_enable_event enable s =
     emit (Cyhal_gpio_enable_event enable) (s\<lparr>button_event_enabled := enable\<rparr>)"

definition tcp_server_task_loop_body :: "task_env \<Rightarrow> state \<Rightarrow> state option" where
  "tcp_server_task_loop_body env s0 =
     (case xTaskNotifyWait s0 of
        None \<Rightarrow> None
      | Some (led_state_cmd, s) \<Rightarrow>
          (let s = cyhal_gpio_enable_event False s;
               s = emit (VTaskDelay DEBOUNCE_DELAY_MS) s;
               s = (if \<not> gpio_read env then
                      (if client_connected s then
                         (let s = emit (Cy_socket_send (client_handle s) led_state_cmd
                                          TCP_LED_CMD_LEN) s;
                              result = send_result env
                          in if result = CY_RSLT_SUCCESS then
                               (if led_state_cmd = LED_ON_CMD
                                then emit (Printf Msg_led_on_sent) s
                                else emit (Printf Msg_led_off_sent) s)
                             else
                               (let s = emit (Printf (Msg_send_failed result)) s
                                in if result = CY_RSLT_MODULE_SECURE_SOCKETS_CLOSED then
                                     emit (Cy_socket_delete (client_handle s))
                                       (emit (Cy_socket_disconnect (client_handle s)) s)
                                   else s))
                       else s)
                    else s)
           in Some (cyhal_gpio_enable_event True s)))"

subsection \<open>The three contexts together\<close>

text \<open>
  The stimuli that reach the program while the task is in its loop. The stack names the
  socket an event belongs to; the button interrupt is delivered only while its event is
  enabled; a pass of the task with nothing pending leaves the task blocked.
\<close>

datatype stimulus =
    Button_interrupt
  | Connect_request cy_socket_t connection_env
  | Data_received cy_socket_t recv_outcome
  | Peer_disconnected cy_socket_t cy_rslt_t
  | Task_pass task_env

fun react :: "stimulus \<Rightarrow> state \<Rightarrow> fault + state" where
  "react Button_interrupt s =
     Inr (if button_event_enabled s then isr_button_press s else s)"
| "react (Connect_request h env) s = Inr (snd (tcp_connection_handler env h s))"
| "react (Data_received h env) s =
     (case tcp_receive_msg_handler env h s of Inl f \<Rightarrow> Inl f | Inr (r, s') \<Rightarrow> Inr s')"
| "react (Peer_disconnected h r) s = Inr (snd (tcp_disconnection_handler r h s))"
| "react (Task_pass env) s =
     Inr (case tcp_server_task_loop_body env s of None \<Rightarrow> s | Some s' \<Rightarrow> s')"

fun run :: "stimulus list \<Rightarrow> state \<Rightarrow> fault + state" where
  "run [] s = Inr s"
| "run (e # es) s = (case react e s of Inl f \<Rightarrow> Inl f | Inr s' \<Rightarrow> run es s')"

text \<open>
  The state in which the task enters its loop: the server socket \<open>h\<close> listens at address
  \<open>ip\<close>, port 50007, the button event is enabled, and the other globals still hold their
  initial values.
\<close>

definition TCP_SERVER_PORT :: "16 word" where
  "TCP_SERVER_PORT = 50007"

definition listening :: "32 word \<Rightarrow> cy_socket_t \<Rightarrow> state" where
  "listening ip h =
     \<lparr>tcp_server_addr = \<lparr>ip_address = ip, port = TCP_SERVER_PORT\<rparr>,
      peer_addr = \<lparr>ip_address = 0, port = 0\<rparr>,
      server_handle = h,
      client_handle = 0,
      peer_addr_len = 0,
      led_state = CYBSP_LED_STATE_OFF,
      client_connected = False,
      notification_pending = False,
      notified_value = 0,
      button_event_enabled = True,
      trace = []\<rparr>"

subsection \<open>Auxiliary notions and concrete scenarios\<close>

text \<open>
  The message buffer after \<open>cy_socket_recv\<close> has copied \<open>d\<close> into the zeroed array, and
  the state in which the receive callback returns after a successful receive of \<open>d\<close>.
\<close>

definition received_buffer :: "string \<Rightarrow> string" where
  "received_buffer d = d @ replicate (MAX_TCP_RECV_BUFFER_SIZE - length d) NUL"

definition acknowledged :: "string \<Rightarrow> cy_socket_t \<Rightarrow> state \<Rightarrow> state" where
  "acknowledged d h s =
     emit (Printf Msg_press_button) (emit (Printf Msg_separator)
       ((emit (Printf (Msg_acknowledgement (c_string d)))
           (emit (Cy_socket_recv h MAX_TCP_RECV_BUFFER_SIZE) s))
        \<lparr>led_state := (c_string d = ''LED ON ACK'')\<rparr>))"

text \<open>
  Environments for concrete runs: a connection request that is accepted on handle \<open>h\<close>
  with every keep-alive option set; the same with the first option refused; a pass of the
  task that finds the button still pressed and whose send answers \<open>r\<close>; a successful
  receive of the bytes \<open>d\<close>; a receive that finds the stream closed.
\<close>

definition accepted :: "cy_socket_t \<Rightarrow> connection_env" where
  "accepted h =
     \<lparr>accept_result = CY_RSLT_SUCCESS,
      accept_peer_addr = \<lparr>ip_address = 2, port = 1024\<rparr>,
      accept_peer_addr_len = 8,
      accept_client_handle = h,
      keepalive_interval_result = CY_RSLT_SUCCESS,
      keepalive_count_result = CY_RSLT_SUCCESS,
      keepalive_idle_time_result = CY_RSLT_SUCCESS,
      keepalive_enable_result = CY_RSLT_SUCCESS\<rparr>"

definition keepalive_refused :: connection_env where
  "keepalive_refused = (accepted 7)\<lparr>keepalive_interval_result := CY_RSLT_OTHER 1\<rparr>"

definition pressed :: "cy_rslt_t \<Rightarrow> task_env" where
  "pressed r = \<lparr>gpio_read = False, send_result = r\<rparr>"

definition received :: "string \<Rightarrow> recv_outcome" where
  "received d = \<lparr>recv_result = CY_RSLT_SUCCESS, recv_incoming = d\<rparr>"

definition closed_by_peer :: recv_outcome where
  "closed_by_peer =
     \<lparr>recv_result = CY_RSLT_MODULE_SECURE_SOCKETS_CLOSED, recv_incoming = []\<rparr>"

text \<open>The server (socket 3) after it has accepted its first peer on handle 7.\<close>

definition first_peer :: state where
  "first_peer = snd (tcp_connection_handler (accepted 7) 3 (listening 1 3))"

section \<open>Properties\<close>

subsection \<open>String comparison on the message buffer\<close>

lemma of_char_zero_iff: "((of_char c :: nat) = 0) = (c = NUL)"
proof -
  have "((of_char c :: nat) = of_char NUL) = (c = NUL)"
    by (rule of_char_eq_iff)
  then show ?thesis by simp
qed

text \<open>
  On a terminated array, \<open>strcmp\<close> against a literal answers 0 exactly when the characters
  before the first terminator are the literal's.
\<close>

lemma strcmp_eq_iff:
  "NUL \<notin> set lit \<Longrightarrow> NUL \<in> set buf \<Longrightarrow>
   (strcmp buf (lit @ [NUL]) = Some 0) = (takeWhile (\<lambda>c. c \<noteq> NUL) buf = lit)"
proof (induction lit arbitrary: buf)
  case Nil
  then obtain c cs where buf: "buf = c # cs" by (cases buf) auto
  have "c \<noteq> NUL \<Longrightarrow> 0 < (of_char c :: nat)"
    using of_char_zero_iff [of c] by simp
  then show ?case unfolding buf by simp
next
  case (Cons x xs)
  then obtain c cs where buf: "buf = c # cs" by (cases buf) auto
  show ?case
  proof (cases "c = x")
    case True
    with Cons.prems buf have "NUL \<notin> set xs" "NUL \<in> set cs" "c \<noteq> NUL" by auto
    with Cons.IH [of cs] True show ?thesis unfolding buf by simp
  next
    case False
    then show ?thesis unfolding buf by auto
  qed
qed

lemma strcmp_terminated:
  "NUL \<in> set buf \<Longrightarrow> NUL \<in> set lit \<Longrightarrow> \<exists>d. strcmp buf lit = Some d"
  by (induction buf lit rule: strcmp.induct) auto

lemma takeWhile_terminated: "\<not> P y \<Longrightarrow> takeWhile P (xs @ y # ys) = takeWhile P xs"
  by (induction xs) auto

lemma recv_short:
  "length d < MAX_TCP_RECV_BUFFER_SIZE \<Longrightarrow>
   cy_socket_recv (replicate MAX_TCP_RECV_BUFFER_SIZE NUL) MAX_TCP_RECV_BUFFER_SIZE d =
     (received_buffer d, length d)"
  by (simp add: cy_socket_recv_def received_buffer_def)

lemma received_buffer_split:
  assumes "length d < MAX_TCP_RECV_BUFFER_SIZE"
  shows "received_buffer d =
           d @ NUL # replicate (MAX_TCP_RECV_BUFFER_SIZE - length d - 1) NUL"
proof -
  from assms obtain k where "MAX_TCP_RECV_BUFFER_SIZE - length d = Suc k"
    by (cases "MAX_TCP_RECV_BUFFER_SIZE - length d") auto
  then show ?thesis by (simp add: received_buffer_def)
qed

text \<open>Short of a full buffer, the terminator lands inside the array (on a zero).\<close>

lemma store_terminator:
  assumes "length d < MAX_TCP_RECV_BUFFER_SIZE"
  shows "store_char (received_buffer d) (length d) NUL = Inr (received_buffer d)"
proof -
  have "length (received_buffer d) = MAX_TCP_RECV_BUFFER_SIZE"
    using assms by (simp add: received_buffer_def)
  moreover have "(received_buffer d)[length d := NUL] = received_buffer d"
    by (simp add: received_buffer_split [OF assms])
  ultimately show ?thesis using assms by (simp add: store_char_def)
qed

lemma c_string_received:
  "length d < MAX_TCP_RECV_BUFFER_SIZE \<Longrightarrow> c_string (received_buffer d) = c_string d"
  by (simp add: received_buffer_split c_string_def takeWhile_terminated)

lemma strcmp_received:
  assumes "length d < MAX_TCP_RECV_BUFFER_SIZE"
  shows "\<exists>r. strcmp (received_buffer d) LED_ON_ACK = Some r \<and>
             (r = 0) = (c_string d = ''LED ON ACK'')"
proof -
  have nul: "NUL \<in> set (received_buffer d)"
    by (simp add: received_buffer_split [OF assms])
  have "NUL \<in> set LED_ON_ACK" by (simp add: LED_ON_ACK_def)
  with nul obtain r where r: "strcmp (received_buffer d) LED_ON_ACK = Some r"
    using strcmp_terminated by blast
  have "NUL \<notin> set ''LED ON ACK''" by simp
  from strcmp_eq_iff [OF this nul]
  have "(strcmp (received_buffer d) LED_ON_ACK = Some 0) = (c_string d = ''LED ON ACK'')"
    using assms by (simp add: LED_ON_ACK_def c_string_def [symmetric] c_string_received)
  with r show ?thesis by simp
qed

lemma receive_success:
  assumes "recv_result env = CY_RSLT_SUCCESS"
    and "length (recv_incoming env) < MAX_TCP_RECV_BUFFER_SIZE"
  shows "tcp_receive_msg_handler env h s =
           Inr (CY_RSLT_SUCCESS, acknowledged (recv_incoming env) h s)"
proof -
  let ?d = "recv_incoming env"
  from strcmp_received [OF assms(2)] obtain r
    where r: "strcmp (received_buffer ?d) LED_ON_ACK = Some r"
      and r0: "(r = 0) = (c_string ?d = ''LED ON ACK'')" by blast
  show ?thesis
    using assms r r0
    by (simp add: tcp_receive_msg_handler_def recv_short store_terminator
        c_string_received acknowledged_def CYBSP_LED_STATE_ON_def CYBSP_LED_STATE_OFF_def
        Let_def)
qed

subsection \<open>One pass of the task's loop\<close>

lemma loop_body_blocked:
  "\<not> notification_pending s \<Longrightarrow> tcp_server_task_loop_body env s = None"
  by (simp add: tcp_server_task_loop_body_def xTaskNotifyWait_def)

lemma loop_body_idle:
  "notification_pending s \<Longrightarrow> gpio_read env \<or> \<not> client_connected s \<Longrightarrow>
   tcp_server_task_loop_body env s =
     Some (s\<lparr>notification_pending := False, button_event_enabled := True,
             trace := trace s @ [Cyhal_gpio_enable_event False, VTaskDelay DEBOUNCE_DELAY_MS,
                                 Cyhal_gpio_enable_event True]\<rparr>)"
  by (auto simp add: tcp_server_task_loop_body_def xTaskNotifyWait_def
      cyhal_gpio_enable_event_def emit_def Let_def)

lemma loop_body_send:
  "notification_pending s \<Longrightarrow> \<not> gpio_read env \<Longrightarrow> client_connected s \<Longrightarrow>
   tcp_server_task_loop_body env s =
     Some (s\<lparr>notification_pending := False, button_event_enabled := True,
             trace := trace s @
               [Cyhal_gpio_enable_event False, VTaskDelay DEBOUNCE_DELAY_MS,
                Cy_socket_send (client_handle s) (notified_value s) TCP_LED_CMD_LEN] @
               (if send_result env = CY_RSLT_SUCCESS then
                  [Printf (if notified_value s = LED_ON_CMD then Msg_led_on_sent
                           else Msg_led_off_sent)]
                else if send_result env = CY_RSLT_MODULE_SECURE_SOCKETS_CLOSED then
                  [Printf (Msg_send_failed (send_result env)),
                   Cy_socket_disconnect (client_handle s), Cy_socket_delete (client_handle s)]
                else [Printf (Msg_send_failed (send_result env))]) @
               [Cyhal_gpio_enable_event True]\<rparr>)"
  by (simp add: tcp_server_task_loop_body_def xTaskNotifyWait_def
      cyhal_gpio_enable_event_def emit_def Let_def)

subsection \<open>The concrete states\<close>

lemma first_peer_facts:
  "client_connected first_peer" "client_handle first_peer = 7" "\<not> led_state first_peer"
  "\<not> notification_pending first_peer" "button_event_enabled first_peer"
  by (simp_all add: first_peer_def tcp_connection_handler_def accepted_def listening_def
      emit_def Let_def CYBSP_LED_STATE_OFF_def)

lemma pressed_first_peer_facts:
  "client_connected (isr_button_press first_peer)"
  "notification_pending (isr_button_press first_peer)"
  "client_handle (isr_button_press first_peer) = 7"
  "notified_value (isr_button_press first_peer) = LED_ON_CMD"
  by (simp_all add: isr_button_press_def xTaskNotifyFromISR_def isr_led_state_cmd_def
      first_peer_facts CYBSP_LED_STATE_ON_def)

section \<open>The claims\<close>

subsection \<open>C1: a peer-closed error and the registry\<close>

text \<open>
  C1 says that the path which detects a peer-closed error (the task's send, or the receive
  callback) itself leaves the registry as the disconnect callback does: \<open>client_connected\<close>
  false and \<open>led_state\<close> reset. The code disconnects and deletes the socket on both paths
  and stops there. After a peer on handle 7 has acknowledged "LED ON ACK", a send that
  answers "closed" deletes socket 7 and leaves \<open>client_connected\<close> and \<open>led_state\<close> true,
  and so does a receive that answers "closed"; the disconnect callback in the same
  situation clears both.
\<close>

theorem peer_closed_keeps_registration:
  "\<not> isl (run [Connect_request 3 (accepted 7), Button_interrupt,
               Task_pass (pressed CY_RSLT_SUCCESS),
               Data_received 7 (received ''LED ON ACK''), Button_interrupt,
               Task_pass (pressed CY_RSLT_MODULE_SECURE_SOCKETS_CLOSED)] (listening 1 3)) \<and>
   Cy_socket_delete 7 \<in> set (trace (projr (run
              [Connect_request 3 (accepted 7), Button_interrupt,
               Task_pass (pressed CY_RSLT_SUCCESS),
               Data_received 7 (received ''LED ON ACK''), Button_interrupt,
               Task_pass (pressed CY_RSLT_MODULE_SECURE_SOCKETS_CLOSED)] (listening 1 3)))) \<and>
   client_connected (projr (run
              [Connect_request 3 (accepted 7), Button_interrupt,
               Task_pass (pressed CY_RSLT_SUCCESS),
               Data_received 7 (received ''LED ON ACK''), Button_interrupt,
               Task_pass (pressed CY_RSLT_MODULE_SECURE_SOCKETS_CLOSED)] (listening 1 3))) \<and>
   led_state (projr (run
              [Connect_request 3 (accepted 7), Button_interrupt,
               Task_pass (pressed CY_RSLT_SUCCESS),
               Data_received 7 (received ''LED ON ACK''), Button_interrupt,
               Task_pass (pressed CY_RSLT_MODULE_SECURE_SOCKETS_CLOSED)] (listening 1 3))) \<and>
   \<not> isl (run [Connect_request 3 (accepted 7), Data_received 7 (received ''LED ON ACK''),
               Data_received 7 closed_by_peer] (listening 1 3)) \<and>
   Cy_socket_delete 7 \<in> set (trace (projr (run
              [Connect_request 3 (accepted 7), Data_received 7 (received ''LED ON ACK''),
               Data_received 7 closed_by_peer] (listening 1 3)))) \<and>
   client_connected (projr (run
              [Connect_request 3 (accepted 7), Data_received 7 (received ''LED ON ACK''),
               Data_received 7 closed_by_peer] (listening 1 3))) \<and>
   led_state (projr (run
              [Connect_request 3 (accepted 7), Data_received 7 (received ''LED ON ACK''),
               Data_received 7 closed_by_peer] (listening 1 3))) \<and>
   \<not> client_connected (projr (run
              [Connect_request 3 (accepted 7), Data_received 7 (received ''LED ON ACK''),
               Peer_disconnected 7 CY_RSLT_SUCCESS] (listening 1 3))) \<and>
   \<not> led_state (projr (run
              [Connect_request 3 (accepted 7), Data_received 7 (received ''LED ON ACK''),
               Peer_disconnected 7 CY_RSLT_SUCCESS] (listening 1 3)))"
  by code_simp

subsection \<open>C2: a connection request while a peer is registered\<close>

text \<open>
  C2, as amended: a connection request that arrives while \<open>client_connected\<close> is true is
  handled like a first one. The callback makes no check of the flag: it calls
  \<open>cy_socket_accept\<close>, \<open>client_handle\<close> and \<open>peer_addr\<close> take the values the call returns,
  the flag stays true, the result is success when accept and the four keep-alive options
  succeed, and the callback neither disconnects nor deletes the handle it replaces.
\<close>

theorem connect_request_while_connected:
  "client_connected s \<Longrightarrow>
   client_connected (snd (tcp_connection_handler env h s)) \<and>
   client_handle (snd (tcp_connection_handler env h s)) = accept_client_handle env \<and>
   peer_addr (snd (tcp_connection_handler env h s)) = accept_peer_addr env \<and>
   (accept_result env = CY_RSLT_SUCCESS \<and>
    keepalive_interval_result env = CY_RSLT_SUCCESS \<and>
    keepalive_count_result env = CY_RSLT_SUCCESS \<and>
    keepalive_idle_time_result env = CY_RSLT_SUCCESS \<and>
    keepalive_enable_result env = CY_RSLT_SUCCESS \<longrightarrow>
    fst (tcp_connection_handler env h s) = CY_RSLT_SUCCESS) \<and>
   Cy_socket_disconnect (client_handle s) \<notin>
     set (drop (length (trace s)) (trace (snd (tcp_connection_handler env h s)))) \<and>
   Cy_socket_delete (client_handle s) \<notin>
     set (drop (length (trace s)) (trace (snd (tcp_connection_handler env h s))))"
  by (simp add: tcp_connection_handler_def emit_def Let_def)

text \<open>
  C2, witness: the server that has accepted a peer on handle 7 receives a second request,
  accepted on handle 8.
\<close>

theorem connect_request_while_connected_witness:
  "client_connected first_peer \<and>
   client_connected (snd (tcp_connection_handler (accepted 8) 3 first_peer)) \<and>
   client_handle (snd (tcp_connection_handler (accepted 8) 3 first_peer)) = 8 \<and>
   fst (tcp_connection_handler (accepted 8) 3 first_peer) = CY_RSLT_SUCCESS"
  using connect_request_while_connected [of first_peer "accepted 8" 3]
  by (simp add: first_peer_facts accepted_def)

text \<open>
  C2, as stated, fails: with the peer on handle 7 registered, the second request is not
  rejected (the callback returns success) and the registered handle is replaced.
\<close>

theorem second_connect_request_counterexample:
  "client_connected first_peer \<and> client_handle first_peer = 7 \<and>
   fst (tcp_connection_handler (accepted 8) 3 first_peer) = CY_RSLT_SUCCESS \<and>
   client_handle (snd (tcp_connection_handler (accepted 8) 3 first_peer)) \<noteq>
     client_handle first_peer"
  by code_simp

subsection \<open>C3: a keep-alive option that cannot be set\<close>

text \<open>
  C3, as amended: if, after a successful accept, one of the four keep-alive steps fails,
  the callback reports it (its last call prints the message of the failing step, and it
  returns that step's error code) and returns before it sets \<open>client_connected\<close>: the flag
  keeps the value it had, while \<open>client_handle\<close> holds the accepted handle.
\<close>

theorem keepalive_failure_skips_registration:
  "accept_result env = CY_RSLT_SUCCESS \<Longrightarrow>
   \<not> (keepalive_interval_result env = CY_RSLT_SUCCESS \<and>
      keepalive_count_result env = CY_RSLT_SUCCESS \<and>
      keepalive_idle_time_result env = CY_RSLT_SUCCESS \<and>
      keepalive_enable_result env = CY_RSLT_SUCCESS) \<Longrightarrow>
   fst (tcp_connection_handler env h s) \<noteq> CY_RSLT_SUCCESS \<and>
   client_connected (snd (tcp_connection_handler env h s)) = client_connected s \<and>
   client_handle (snd (tcp_connection_handler env h s)) = accept_client_handle env \<and>
   last (trace (snd (tcp_connection_handler env h s))) \<in>
     {Printf Msg_keepalive_interval_failed, Printf Msg_keepalive_count_failed,
      Printf Msg_keepalive_idle_time_failed, Printf Msg_keepalive_enable_failed}"
  by (auto simp add: tcp_connection_handler_def emit_def Let_def)

text \<open>
  C3, witness: the first request is accepted on handle 7 and the keep-alive interval is
  refused.
\<close>

theorem keepalive_failure_skips_registration_witness:
  "accept_result keepalive_refused = CY_RSLT_SUCCESS \<and>
   keepalive_interval_result keepalive_refused \<noteq> CY_RSLT_SUCCESS \<and>
   fst (tcp_connection_handler keepalive_refused 3 (listening 1 3)) \<noteq> CY_RSLT_SUCCESS \<and>
   client_connected (snd (tcp_connection_handler keepalive_refused 3 (listening 1 3))) =
     client_connected (listening 1 3) \<and>
   client_handle (snd (tcp_connection_handler keepalive_refused 3 (listening 1 3))) = 7"
  using keepalive_failure_skips_registration [of keepalive_refused 3 "listening 1 3"]
  by (simp add: keepalive_refused_def accepted_def)

text \<open>
  C3, as stated, fails: after that request the registry does not record the peer, and
  the next button press sends nothing to it.
\<close>

theorem keepalive_failure_counterexample:
  "accept_result keepalive_refused = CY_RSLT_SUCCESS \<and>
   \<not> client_connected (snd (tcp_connection_handler keepalive_refused 3 (listening 1 3))) \<and>
   \<not> isl (run [Connect_request 3 keepalive_refused, Button_interrupt,
               Task_pass (pressed CY_RSLT_SUCCESS)] (listening 1 3)) \<and>
   Cy_socket_send 7 LED_ON_CMD TCP_LED_CMD_LEN \<notin> set (trace (projr (run
              [Connect_request 3 keepalive_refused, Button_interrupt,
               Task_pass (pressed CY_RSLT_SUCCESS)] (listening 1 3))))"
  by code_simp

subsection \<open>C4: the acknowledgement and the LED flag\<close>

text \<open>
  C4, as amended: on every successful receive of fewer than 20 bytes the callback returns
  success with \<open>led_state\<close> set by \<open>strcmp\<close> on the terminated buffer: the flag is ON if
  and only if the received bytes before the first NUL byte (all of them when there is
  none) are exactly "LED ON ACK", and OFF for every other content; there is no error path
  for malformed input.
\<close>

theorem acknowledgement_sets_led_state:
  "recv_result env = CY_RSLT_SUCCESS \<Longrightarrow>
   length (recv_incoming env) < MAX_TCP_RECV_BUFFER_SIZE \<Longrightarrow>
   (\<exists>s'. tcp_receive_msg_handler env h s = Inr (CY_RSLT_SUCCESS, s') \<and>
         led_state s' = (if c_string (recv_incoming env) = ''LED ON ACK''
                         then CYBSP_LED_STATE_ON else CYBSP_LED_STATE_OFF))"
  by (simp add: receive_success acknowledged_def emit_def
      CYBSP_LED_STATE_ON_def CYBSP_LED_STATE_OFF_def)

text \<open>C4, witness: the acknowledgement in lower case switches the flag off.\<close>

theorem acknowledgement_sets_led_state_witness:
  "recv_result (received ''led on ack'') = CY_RSLT_SUCCESS \<and>
   length (recv_incoming (received ''led on ack'')) < MAX_TCP_RECV_BUFFER_SIZE \<and>
   (\<exists>s'. tcp_receive_msg_handler (received ''led on ack'') 7 first_peer =
           Inr (CY_RSLT_SUCCESS, s') \<and> led_state s' = CYBSP_LED_STATE_OFF)"
  using acknowledgement_sets_led_state [of "received ''led on ack''" 7 first_peer]
  by (simp add: received_def MAX_TCP_RECV_BUFFER_SIZE_def c_string_def)

text \<open>
  C4, as stated, fails: the eleven received bytes "LED ON ACK" followed by a NUL byte are
  not the literal, and the flag is set to ON.
\<close>

theorem acknowledgement_counterexample:
  "recv_result (received (''LED ON ACK'' @ [NUL])) = CY_RSLT_SUCCESS \<and>
   recv_incoming (received (''LED ON ACK'' @ [NUL])) \<noteq> ''LED ON ACK'' \<and>
   \<not> isl (tcp_receive_msg_handler (received (''LED ON ACK'' @ [NUL])) 7 first_peer) \<and>
   led_state (snd (projr (tcp_receive_msg_handler (received (''LED ON ACK'' @ [NUL])) 7
                            first_peer))) = CYBSP_LED_STATE_ON"
  by code_simp

subsection \<open>C5: the disconnect callback\<close>

text \<open>
  C5: whatever the state in which it is called, the disconnect callback disconnects and
  deletes the socket it is given (its first two calls), returns the result of the
  disconnect, and leaves \<open>client_connected\<close> false and \<open>led_state\<close> false.
\<close>

theorem disconnect_clears_registry:
  "fst (tcp_disconnection_handler r h s) = r \<and>
   \<not> client_connected (snd (tcp_disconnection_handler r h s)) \<and>
   \<not> led_state (snd (tcp_disconnection_handler r h s)) \<and>
   trace (snd (tcp_disconnection_handler r h s)) =
     trace s @ [Cy_socket_disconnect h, Cy_socket_delete h, Printf Msg_client_disconnected,
                Printf Msg_separator, Printf (Msg_listening (port (tcp_server_addr s)))]"
  by (simp add: tcp_disconnection_handler_def emit_def CYBSP_LED_STATE_OFF_def Let_def)

subsection \<open>C6: a post while a notification is pending\<close>

text \<open>
  C6: when the interrupt routine posts while a value is still pending, the post returns
  with the state unchanged, so the pending value is kept and the new one is dropped; the
  task's wait then receives the pending value, and after the pass that consumed it a
  further pass does not start: the two posts produce one pass of the loop.
\<close>

theorem notification_without_overwrite:
  "notification_pending s \<Longrightarrow>
   isr_button_press s = s \<and>
   xTaskNotifyWait (isr_button_press s) =
     Some (notified_value s, s\<lparr>notification_pending := False\<rparr>) \<and>
   (\<exists>s'. tcp_server_task_loop_body env (isr_button_press s) = Some s' \<and>
         tcp_server_task_loop_body env' s' = None)"
proof -
  assume pending: "notification_pending s"
  then have same: "isr_button_press s = s"
    by (simp add: isr_button_press_def xTaskNotifyFromISR_def)
  from pending obtain s' where s': "tcp_server_task_loop_body env s = Some s'"
    and "\<not> notification_pending s'"
    by (cases "gpio_read env \<or> \<not> client_connected s")
      (auto simp: loop_body_idle loop_body_send)
  then have "tcp_server_task_loop_body env' s' = None"
    by (simp add: loop_body_blocked)
  with same s' pending show ?thesis
    by (simp add: xTaskNotifyWait_def)
qed

text \<open>
  C6, witness: the button is pressed twice before the task runs; the command of the first
  press, ON, is the one the task receives.
\<close>

theorem notification_without_overwrite_witness:
  "notification_pending (isr_button_press (listening 1 3)) \<and>
   isr_button_press (isr_button_press (listening 1 3)) = isr_button_press (listening 1 3) \<and>
   xTaskNotifyWait (isr_button_press (isr_button_press (listening 1 3))) =
     Some (LED_ON_CMD, (isr_button_press (listening 1 3))\<lparr>notification_pending := False\<rparr>) \<and>
   (\<exists>s'. tcp_server_task_loop_body (pressed CY_RSLT_SUCCESS)
           (isr_button_press (isr_button_press (listening 1 3))) = Some s' \<and>
         tcp_server_task_loop_body (pressed CY_RSLT_SUCCESS) s' = None)"
proof -
  have p: "notification_pending (isr_button_press (listening 1 3))"
    by (simp add: isr_button_press_def xTaskNotifyFromISR_def listening_def)
  have v: "notified_value (isr_button_press (listening 1 3)) = LED_ON_CMD"
    by (simp add: isr_button_press_def xTaskNotifyFromISR_def listening_def
        isr_led_state_cmd_def CYBSP_LED_STATE_ON_def CYBSP_LED_STATE_OFF_def)
  from notification_without_overwrite
         [OF p, of "pressed CY_RSLT_SUCCESS" "pressed CY_RSLT_SUCCESS"] p
  show ?thesis unfolding v by blast
qed

subsection \<open>C7: the toggle law\<close>

text \<open>
  C7: the interrupt routine computes OFF when \<open>led_state\<close> is true and ON when it is
  false. Hence, with a peer connected and \<open>led_state\<close> false, a button press makes the task
  send ON; once the text "LED ON ACK" has been received \<open>led_state\<close> is true, and the next
  button press posts OFF.
\<close>

theorem toggle_law:
  "isr_led_state_cmd s = (if led_state s then LED_OFF_CMD else LED_ON_CMD) \<and>
   (\<not> led_state s \<and> client_connected s \<and> \<not> notification_pending s \<and>
    button_event_enabled s \<longrightarrow>
    (\<exists>s'. run [Button_interrupt,
               Task_pass \<lparr>gpio_read = False, send_result = CY_RSLT_SUCCESS\<rparr>,
               Data_received h \<lparr>recv_result = CY_RSLT_SUCCESS,
                                recv_incoming = ''LED ON ACK''\<rparr>,
               Button_interrupt] s = Inr s' \<and>
          Cy_socket_send (client_handle s) LED_ON_CMD TCP_LED_CMD_LEN \<in> set (trace s') \<and>
          led_state s' \<and> notification_pending s' \<and> notified_value s' = LED_OFF_CMD))"
proof (intro conjI impI)
  show "isr_led_state_cmd s = (if led_state s then LED_OFF_CMD else LED_ON_CMD)"
    by (simp add: isr_led_state_cmd_def CYBSP_LED_STATE_ON_def)
next
  assume a: "\<not> led_state s \<and> client_connected s \<and> \<not> notification_pending s \<and>
    button_event_enabled s"
  let ?ack = "\<lparr>recv_result = CY_RSLT_SUCCESS, recv_incoming = ''LED ON ACK''\<rparr>"
  have short: "length (recv_incoming ?ack) < MAX_TCP_RECV_BUFFER_SIZE"
    by (simp add: MAX_TCP_RECV_BUFFER_SIZE_def)
  have ack: "\<And>t. tcp_receive_msg_handler ?ack h t =
      Inr (CY_RSLT_SUCCESS, acknowledged ''LED ON ACK'' h t)"
    using receive_success [of ?ack, OF _ short] by simp
  from a show "\<exists>s'. run [Button_interrupt,
               Task_pass \<lparr>gpio_read = False, send_result = CY_RSLT_SUCCESS\<rparr>,
               Data_received h ?ack, Button_interrupt] s = Inr s' \<and>
          Cy_socket_send (client_handle s) LED_ON_CMD TCP_LED_CMD_LEN \<in> set (trace s') \<and>
          led_state s' \<and> notification_pending s' \<and> notified_value s' = LED_OFF_CMD"
    by (simp add: ack isr_button_press_def xTaskNotifyFromISR_def isr_led_state_cmd_def
        CYBSP_LED_STATE_ON_def loop_body_send acknowledged_def emit_def c_string_def)
qed

text \<open>C7, witness: the scenario on the server that has just accepted its first peer.\<close>

theorem toggle_law_witness:
  "\<not> led_state first_peer \<and> client_connected first_peer \<and>
   \<not> notification_pending first_peer \<and> button_event_enabled first_peer \<and>
   isr_led_state_cmd first_peer = LED_ON_CMD \<and>
   (\<exists>s'. run [Button_interrupt,
               Task_pass \<lparr>gpio_read = False, send_result = CY_RSLT_SUCCESS\<rparr>,
               Data_received 7 \<lparr>recv_result = CY_RSLT_SUCCESS,
                                recv_incoming = ''LED ON ACK''\<rparr>,
               Button_interrupt] first_peer = Inr s' \<and>
          Cy_socket_send 7 LED_ON_CMD TCP_LED_CMD_LEN \<in> set (trace s') \<and>
          led_state s' \<and> notification_pending s' \<and> notified_value s' = LED_OFF_CMD)"
  using toggle_law [of first_peer 7] by (simp add: first_peer_facts)

subsection \<open>C8: the button event is enabled again\<close>

text \<open>
  C8: every pass of the task's loop that starts (a notification is pending) ends, whatever
  the pin level and the answer of the send, with the button event enabled, the enabling
  call being its last call. When no peer is connected the pass does nothing else: it
  consumes the notification, disables the event, waits, enables the event, and makes no
  send and prints no error.
\<close>

theorem interrupt_rearmed:
  "notification_pending s \<Longrightarrow>
   (\<exists>s'. tcp_server_task_loop_body env s = Some s' \<and>
         button_event_enabled s' \<and>
         last (trace s') = Cyhal_gpio_enable_event True \<and>
         (\<not> client_connected s \<longrightarrow>
            s' = s\<lparr>notification_pending := False, button_event_enabled := True,
                   trace := trace s @ [Cyhal_gpio_enable_event False,
                                       VTaskDelay DEBOUNCE_DELAY_MS,
                                       Cyhal_gpio_enable_event True]\<rparr>))"
  by (cases "gpio_read env \<or> \<not> client_connected s")
    (auto simp: loop_body_idle loop_body_send)

text \<open>C8, witness: the button is pressed while the server listens and no peer is connected.\<close>

theorem interrupt_rearmed_witness:
  "notification_pending (isr_button_press (listening 1 3)) \<and>
   \<not> client_connected (isr_button_press (listening 1 3)) \<and>
   (\<exists>s'. tcp_server_task_loop_body (pressed CY_RSLT_SUCCESS)
           (isr_button_press (listening 1 3)) = Some s' \<and>
         button_event_enabled s' \<and>
         trace s' = [Cyhal_gpio_enable_event False, VTaskDelay DEBOUNCE_DELAY_MS,
                     Cyhal_gpio_enable_event True])"
proof -
  have p: "notification_pending (isr_button_press (listening 1 3))"
    and c: "\<not> client_connected (isr_button_press (listening 1 3))"
    and t: "trace (isr_button_press (listening 1 3)) = []"
    by (simp_all add: isr_button_press_def xTaskNotifyFromISR_def listening_def)
  from interrupt_rearmed [OF p, of "pressed CY_RSLT_SUCCESS"] p c t
  show ?thesis by auto
qed

subsection \<open>C9: a send that fails for another reason\<close>

text \<open>
  C9: when the send fails with a code other than "closed", the pass makes that one send,
  prints the failure and enables the button event; every global (\<open>client_connected\<close>,
  \<open>client_handle\<close>, \<open>led_state\<close> among them) is as before.
\<close>

theorem transient_send_failure:
  "notification_pending s \<Longrightarrow> client_connected s \<Longrightarrow> \<not> gpio_read env \<Longrightarrow>
   send_result env \<noteq> CY_RSLT_SUCCESS \<Longrightarrow>
   send_result env \<noteq> CY_RSLT_MODULE_SECURE_SOCKETS_CLOSED \<Longrightarrow>
   tcp_server_task_loop_body env s =
     Some (s\<lparr>notification_pending := False, button_event_enabled := True,
             trace := trace s @
               [Cyhal_gpio_enable_event False, VTaskDelay DEBOUNCE_DELAY_MS,
                Cy_socket_send (client_handle s) (notified_value s) TCP_LED_CMD_LEN,
                Printf (Msg_send_failed (send_result env)),
                Cyhal_gpio_enable_event True]\<rparr>)"
  by (simp add: loop_body_send)

text \<open>C9, witness: the send to the peer on handle 7 fails with the code 5.\<close>

theorem transient_send_failure_witness:
  "notification_pending (isr_button_press first_peer) \<and>
   client_connected (isr_button_press first_peer) \<and>
   \<not> gpio_read (pressed (CY_RSLT_OTHER 5)) \<and>
   send_result (pressed (CY_RSLT_OTHER 5)) \<noteq> CY_RSLT_SUCCESS \<and>
   send_result (pressed (CY_RSLT_OTHER 5)) \<noteq> CY_RSLT_MODULE_SECURE_SOCKETS_CLOSED \<and>
   tcp_server_task_loop_body (pressed (CY_RSLT_OTHER 5)) (isr_button_press first_peer) =
     Some ((isr_button_press first_peer)
             \<lparr>notification_pending := False, button_event_enabled := True,
              trace := trace (isr_button_press first_peer) @
                [Cyhal_gpio_enable_event False, VTaskDelay DEBOUNCE_DELAY_MS,
                 Cy_socket_send 7 LED_ON_CMD TCP_LED_CMD_LEN,
                 Printf (Msg_send_failed (CY_RSLT_OTHER 5)),
                 Cyhal_gpio_enable_event True]\<rparr>)"
  using transient_send_failure [of "isr_button_press first_peer" "pressed (CY_RSLT_OTHER 5)"]
  by (simp add: pressed_first_peer_facts pressed_def)

subsection \<open>C10: the terminator of the message buffer\<close>

text \<open>
  C10 says that the terminator written at index \<open>bytes_received\<close> stays inside the 20-byte
  buffer for every count up to 20. The receive is asked for 20 bytes: when the peer sends
  20, the callback stores the terminator at index 20 of an array whose last index is 19.
\<close>

theorem terminator_write_out_of_bounds:
  "run [Connect_request 3 (accepted 7), Data_received 7 (received (replicate 20 CHR ''A''))]
     (listening 1 3) = Inl (Out_of_bounds_write 20 20)"
  by code_simp

end
